theory Spec2Isabelle
  imports Main "HOL-Library.Sublist"
begin

section \<open>Service worker of the e-book reader (sw.js)\<close>

text \<open>
  The worker is a set of event handlers over two host capabilities: the cache store
  (\<^verbatim>\<open>caches\<close>) and the network (\<^verbatim>\<open>fetch\<close>). Both are made explicit here.
  Strings are byte lists: a request URL is ASCII as the host serialises it, and a
  response body written as a JavaScript string is its UTF-8 encoding, which is what
  the \<^verbatim>\<open>Response\<close> constructor stores.
\<close>

subsection \<open>Responses, requests and promises\<close>

record response =
  status :: nat
  headers :: "(string \<times> string) list"
  body :: string

text \<open>\<^verbatim>\<open>response.ok\<close>: the status is in the range 200 to 299.\<close>

definition ok :: "response \<Rightarrow> bool" where
  "ok r = (200 \<le> status r \<and> status r \<le> 299)"

text \<open>
  \<^verbatim>\<open>new Response(text, init)\<close> with a string body. The status defaults to 200; when
  \<^verbatim>\<open>init\<close> gives no headers the constructor adds the content type of a string body.
\<close>

definition new_Response :: "string \<Rightarrow> nat option \<Rightarrow> (string \<times> string) list option \<Rightarrow> response" where
  "new_Response text st hs =
     \<lparr>status = (case st of None \<Rightarrow> 200 | Some s \<Rightarrow> s),
      headers = (case hs of None \<Rightarrow> [(''Content-Type'', ''text/plain;charset=UTF-8'')] | Some h \<Rightarrow> h),
      body = text\<rparr>"

record request =
  "method" :: string
  url :: string

text \<open>The parts of \<^verbatim>\<open>new URL(request.url)\<close> the worker reads; parsing is the host's.\<close>

record URL =
  protocol :: string
  hostname :: string

text \<open>A settled promise: rejected, or fulfilled with a value.\<close>

datatype 'a settled = Rejected | Fulfilled 'a

text \<open>The network capability: \<^verbatim>\<open>fetch(request)\<close> rejects or yields a response.\<close>

type_synonym network = "string \<Rightarrow> response settled"

text \<open>The exception the host throws in the paths modelled here.\<close>

datatype js_error = TypeError

subsection \<open>The cache store\<close>

text \<open>
  A cache is the store's request-response list, oldest insertion first. Every stored
  request is a GET and is kept as its URL. A request matches a stored one when its
  method is GET and the two URLs are equal with their fragments excluded. Requests
  carry no headers in this model, so the \<^verbatim>\<open>Vary\<close> header of a stored response
  never turns a match into a miss.
\<close>

type_synonym cache = "(string \<times> response) list"
type_synonym cache_storage = "(string \<times> cache) list"

definition exclude_fragment :: "string \<Rightarrow> string" where
  "exclude_fragment u = takeWhile (\<lambda>c. c \<noteq> CHR ''#'') u"

definition url_matches :: "string \<Rightarrow> string \<Rightarrow> bool" where
  "url_matches cached u = (exclude_fragment cached = exclude_fragment u)"

text \<open>\<^verbatim>\<open>cache.match(request)\<close>: the response of the first stored request that matches.\<close>

definition cache_match :: "cache \<Rightarrow> request \<Rightarrow> response option" where
  "cache_match c req =
     (if method req \<noteq> ''GET'' then None
      else map_option snd (find (\<lambda>e. url_matches (fst e) (url req)) c))"

text \<open>
  The values of a header, its name compared without regard to case, split at commas
  and stripped of blanks.
\<close>

definition ascii_lower :: "char \<Rightarrow> char" where
  "ascii_lower c =
     (let n = (of_char c :: nat) in if 65 \<le> n \<and> n \<le> 90 then char_of (n + 32) else c)"

fun split_commas :: "string \<Rightarrow> string list" where
  "split_commas [] = [[]]"
| "split_commas (c # cs) =
     (if c = CHR '','' then [] # split_commas cs
      else (case split_commas cs of [] \<Rightarrow> [[c]] | t # ts \<Rightarrow> (c # t) # ts))"

definition is_blank :: "char \<Rightarrow> bool" where
  "is_blank c = (c = CHR '' '' \<or> c = CHR 0x09)"

definition strip_blanks :: "string \<Rightarrow> string" where
  "strip_blanks s = rev (dropWhile is_blank (rev (dropWhile is_blank s)))"

definition header_values :: "string \<Rightarrow> (string \<times> string) list \<Rightarrow> string list" where
  "header_values name hs =
     concat (map (\<lambda>h. map strip_blanks (split_commas (snd h)))
                 (filter (\<lambda>h. map ascii_lower (fst h) = name) hs))"

text \<open>
  \<^verbatim>\<open>cache.put(request, response)\<close> rejects with a \<^verbatim>\<open>TypeError\<close> when the
  request's scheme is not http or https or its method is not GET, when the response's
  status is 206, and when the response has a \<^verbatim>\<open>Vary\<close> header with the value
  \<^verbatim>\<open>*\<close>. Otherwise it removes the stored requests that match and appends the
  new entry.
\<close>

definition http_scheme :: "string \<Rightarrow> bool" where
  "http_scheme u = (prefix ''http://'' u \<or> prefix ''https://'' u)"

definition put_rejected :: "request \<Rightarrow> response \<Rightarrow> bool" where
  "put_rejected req r =
     (\<not> http_scheme (url req) \<or> method req \<noteq> ''GET'' \<or> status r = 206 \<or>
      ''*'' \<in> set (header_values ''vary'' (headers r)))"

definition cache_put :: "cache \<Rightarrow> request \<Rightarrow> response \<Rightarrow> js_error + cache" where
  "cache_put c req r =
     (if put_rejected req r then Inl TypeError
      else Inr (filter (\<lambda>e. \<not> url_matches (fst e) (url req)) c @ [(url req, r)]))"


text \<open>
  \<^verbatim>\<open>cache.keys()\<close> resolves to a frozen array (the interface declares a
  \<^verbatim>\<open>FrozenArray\<close>) of the stored requests in the list's order.
\<close>

record 'a js_array =
  frozen :: bool
  items :: "'a list"


text \<open>
  The cache storage is the list of named caches in creation order, which is the order
  of \<^verbatim>\<open>caches.keys()\<close> and the order in which \<^verbatim>\<open>caches.match\<close> searches.
  \<^verbatim>\<open>caches.open(name)\<close> creates the cache when it does not exist. In the request
  handlers and in the sweep the store's own operations succeed; failures of the store
  are parameters of \<open>install\<close> and \<open>activate\<close>.
\<close>

definition caches_open :: "cache_storage \<Rightarrow> string \<Rightarrow> cache_storage" where
  "caches_open cs name = (if name \<in> set (map fst cs) then cs else cs @ [(name, [])])"

definition caches_get :: "cache_storage \<Rightarrow> string \<Rightarrow> cache" where
  "caches_get cs name = (case map_of cs name of None \<Rightarrow> [] | Some c \<Rightarrow> c)"

definition caches_update :: "cache_storage \<Rightarrow> string \<Rightarrow> (cache \<Rightarrow> cache) \<Rightarrow> cache_storage" where
  "caches_update cs name f = map (\<lambda>(n, c). if n = name then (n, f c) else (n, c)) cs"

text \<open>\<^verbatim>\<open>caches.match(request)\<close>: the first cache, in creation order, with a match.\<close>

fun caches_match :: "cache_storage \<Rightarrow> request \<Rightarrow> response option" where
  "caches_match [] req = None"
| "caches_match ((n, c) # cs) req =
     (case cache_match c req of Some r \<Rightarrow> Some r | None \<Rightarrow> caches_match cs req)"

definition caches_keys :: "cache_storage \<Rightarrow> string list" where
  "caches_keys cs = map fst cs"

definition caches_delete :: "cache_storage \<Rightarrow> string \<Rightarrow> cache_storage" where
  "caches_delete cs name = filter (\<lambda>p. fst p \<noteq> name) cs"

subsection \<open>Constants\<close>

definition STATIC_CACHE :: string where
  "STATIC_CACHE = ''reader-static-v1.0.0''"

definition DYNAMIC_CACHE :: string where
  "DYNAMIC_CACHE = ''reader-dynamic-v1.0.0''"

definition STATIC_ASSETS :: "string list" where
  "STATIC_ASSETS =
     [''./'',
      ''./index.html'',
      ''./manifest.json'',
      ''https://cdn.jsdelivr.net/npm/jszip@3.10.1/dist/jszip.min.js'',
      ''https://cdn.jsdelivr.net/npm/epubjs@0.3/dist/epub.min.js'',
      ''https://cdn.jsdelivr.net/npm/marked@12.0.2/marked.min.js'']"

subsection \<open>Classification\<close>

text \<open>\<^verbatim>\<open>String.prototype.includes\<close> and \<^verbatim>\<open>endsWith\<close>.\<close>

definition str_includes :: "string \<Rightarrow> string \<Rightarrow> bool" where
  "str_includes s t = sublist t s"

definition str_endsWith :: "string \<Rightarrow> string \<Rightarrow> bool" where
  "str_endsWith s t = suffix t s"

definition isStaticAsset :: "string \<Rightarrow> bool" where
  "isStaticAsset u =
     (list_ex (\<lambda>asset. str_includes u asset) STATIC_ASSETS \<or>
      str_includes u ''cdn.jsdelivr.net'' \<or>
      str_endsWith u ''.js'' \<or>
      str_endsWith u ''.css'' \<or>
      str_endsWith u ''.json'')"

definition isEpubFile :: "string \<Rightarrow> bool" where
  "isEpubFile u = (str_endsWith u ''.epub'' \<or> str_includes u ''.epub'')"

subsection \<open>Fixed response texts\<close>

text \<open>
  The texts are Chinese in the source; they are written here as their UTF-8 bytes.
  \<open>static_unavailable_text\<close> is the body of the 503 response ("offline mode - cannot
  load the resource"), \<open>epub_unavailable_text\<close> the body of the 404 response ("EPUB
  file unavailable"), \<open>offline_heading\<close> the heading of the offline page ("offline
  mode").
\<close>

definition static_unavailable_text :: string where
  "static_unavailable_text = [CHR 0xE7, CHR 0xA6, CHR 0xBB, CHR 0xE7, CHR 0xBA, CHR 0xBF, CHR 0xE6, CHR 0xA8, CHR 0xA1, CHR 0xE5, CHR 0xBC, CHR 0x8F] @ '' - '' @ [CHR 0xE6, CHR 0x97, CHR 0xA0, CHR 0xE6, CHR 0xB3, CHR 0x95, CHR 0xE5, CHR 0x8A, CHR 0xA0, CHR 0xE8, CHR 0xBD, CHR 0xBD, CHR 0xE8, CHR 0xB5, CHR 0x84, CHR 0xE6, CHR 0xBA, CHR 0x90]"

definition epub_unavailable_text :: string where
  "epub_unavailable_text = ''EPUB'' @ [CHR 0xE6, CHR 0x96, CHR 0x87, CHR 0xE4, CHR 0xBB, CHR 0xB6, CHR 0xE4, CHR 0xB8, CHR 0x8D, CHR 0xE5, CHR 0x8F, CHR 0xAF, CHR 0xE7, CHR 0x94, CHR 0xA8]"

definition offline_heading :: string where
  "offline_heading = [CHR 0xE7, CHR 0xA6, CHR 0xBB, CHR 0xE7, CHR 0xBA, CHR 0xBF, CHR 0xE6, CHR 0xA8, CHR 0xA1, CHR 0xE5, CHR 0xBC, CHR 0x8F]"

text \<open>The lines of the offline page's template literal, between its two backquotes.\<close>

definition offline_page_lines :: "string list" where
  \<open>offline_page_lines =
     [
      ''    <!DOCTYPE html>'',
      ''    <html lang="zh-CN">'',
      ''    <head>'',
      ''      <meta charset="utf-8">'',
      ''      <meta name="viewport" content="width=device-width, initial-scale=1">'',
      ''      <title>'' @ [CHR 0xE7, CHR 0xA6, CHR 0xBB, CHR 0xE7, CHR 0xBA, CHR 0xBF] @ '' - '' @ [CHR 0xE6, CHR 0x9E, CHR 0x81, CHR 0xE7, CHR 0xAE, CHR 0x80, CHR 0xE7, CHR 0x94, CHR 0xB5, CHR 0xE5, CHR 0xAD, CHR 0x90, CHR 0xE4, CHR 0xB9, CHR 0xA6, CHR 0xE9, CHR 0x98, CHR 0x85, CHR 0xE8, CHR 0xAF, CHR 0xBB, CHR 0xE5, CHR 0x99, CHR 0xA8] @ ''</title>'',
      ''      <style>'',
      ''        body {'',
      ''          font-family: -apple-system, BlinkMacSystemFont, 'Segoe UI', Roboto, sans-serif;'',
      ''          display: flex;'',
      ''          flex-direction: column;'',
      ''          align-items: center;'',
      ''          justify-content: center;'',
      ''          min-height: 100vh;'',
      ''          margin: 0;'',
      ''          background: #f5f5f5;'',
      ''          color: #333;'',
      ''        }'',
      ''        .container {'',
      ''          text-align: center;'',
      ''          padding: 2rem;'',
      ''          background: white;'',
      ''          border-radius: 12px;'',
      ''          box-shadow: 0 4px 12px rgba(0,0,0,0.1);'',
      ''          max-width: 400px;'',
      ''        }'',
      ''        h1 { color: #1f6eeb; margin-bottom: 1rem; }'',
      ''        p { margin-bottom: 1rem; color: #666; }'',
      ''        button {'',
      ''          background: #1f6eeb;'',
      ''          color: white;'',
      ''          border: none;'',
      ''          padding: 12px 24px;'',
      ''          border-radius: 8px;'',
      ''          font-size: 16px;'',
      ''          cursor: pointer;'',
      ''          transition: background 0.2s;'',
      ''        }'',
      ''        button:hover { background: #0056cc; }'',
      ''      </style>'',
      ''    </head>'',
      ''    <body>'',
      ''      <div class="container">'',
      ''        <h1>'' @ [CHR 0xF0, CHR 0x9F, CHR 0x93, CHR 0x9A] @ '' '' @ [CHR 0xE7, CHR 0xA6, CHR 0xBB, CHR 0xE7, CHR 0xBA, CHR 0xBF, CHR 0xE6, CHR 0xA8, CHR 0xA1, CHR 0xE5, CHR 0xBC, CHR 0x8F] @ ''</h1>'',
      ''        <p>'' @ [CHR 0xE5, CHR 0xBD, CHR 0x93, CHR 0xE5, CHR 0x89, CHR 0x8D, CHR 0xE5, CHR 0xA4, CHR 0x84, CHR 0xE4, CHR 0xBA, CHR 0x8E, CHR 0xE7, CHR 0xA6, CHR 0xBB, CHR 0xE7, CHR 0xBA, CHR 0xBF, CHR 0xE7, CHR 0x8A, CHR 0xB6, CHR 0xE6, CHR 0x80, CHR 0x81, CHR 0xEF, CHR 0xBC, CHR 0x8C, CHR 0xE6, CHR 0x97, CHR 0xA0, CHR 0xE6, CHR 0xB3, CHR 0x95, CHR 0xE5, CHR 0x8A, CHR 0xA0, CHR 0xE8, CHR 0xBD, CHR 0xBD, CHR 0xE6, CHR 0x96, CHR 0xB0, CHR 0xE5, CHR 0x86, CHR 0x85, CHR 0xE5, CHR 0xAE, CHR 0xB9, CHR 0xE3, CHR 0x80, CHR 0x82] @ ''</p>'',
      ''        <p>'' @ [CHR 0xE6, CHR 0x82, CHR 0xA8, CHR 0xE5, CHR 0x8F, CHR 0xAF, CHR 0xE4, CHR 0xBB, CHR 0xA5, CHR 0xE7, CHR 0xBB, CHR 0xA7, CHR 0xE7, CHR 0xBB, CHR 0xAD, CHR 0xE9, CHR 0x98, CHR 0x85, CHR 0xE8, CHR 0xAF, CHR 0xBB, CHR 0xE5, CHR 0xB7, CHR 0xB2, CHR 0xE7, CHR 0xBC, CHR 0x93, CHR 0xE5, CHR 0xAD, CHR 0x98, CHR 0xE7, CHR 0x9A, CHR 0x84, CHR 0xE4, CHR 0xB9, CHR 0xA6, CHR 0xE7, CHR 0xB1, CHR 0x8D, CHR 0xE3, CHR 0x80, CHR 0x82] @ ''</p>'',
      ''        <button onclick="location.reload()">'' @ [CHR 0xE9, CHR 0x87, CHR 0x8D, CHR 0xE6, CHR 0x96, CHR 0xB0, CHR 0xE8, CHR 0xBF, CHR 0x9E, CHR 0xE6, CHR 0x8E, CHR 0xA5] @ ''</button>'',
      ''      </div>'',
      ''    </body>'',
      ''    </html>''
     ]\<close>

text \<open>
  The template literal opens with a line break, separates the lines by line breaks and
  closes with a line break and two spaces.
\<close>

definition offline_page_body :: string where
  "offline_page_body = concat (map (\<lambda>l. CHR 0x0A # l) offline_page_lines) @ [CHR 0x0A] @ ''  ''"

definition offline_page :: response where
  "offline_page =
     new_Response offline_page_body None (Some [(''Content-Type'', ''text/html; charset=utf-8'')])"

text \<open>
  Marks of a reference to another resource: a URL scheme or a protocol-relative
  address, and the attributes, style functions and elements that load one.
\<close>

definition external_reference_marks :: "string list" where
  "external_reference_marks =
     [''http'', ''//'', ''src='', ''href='', ''url('', ''@import'',
      ''<script'', ''<link'', ''<img'', ''<iframe'']"

subsection \<open>Strategies\<close>

text \<open>
  A handler runs in a world made of the cache storage and the log of the requests
  handed to \<^verbatim>\<open>fetch\<close>, and returns the response with the world it leaves.
\<close>

record world =
  store :: cache_storage
  fetched :: "string list"

definition net_fetch :: "network \<Rightarrow> request \<Rightarrow> world \<Rightarrow> response settled \<times> world" where
  "net_fetch net req w = (net (url req), w\<lparr>fetched := fetched w @ [url req]\<rparr>)"

text \<open>
  \<^verbatim>\<open>caches.open(name)\<close> followed by \<^verbatim>\<open>cache.put(request, response.clone())\<close>.
  The handlers do not await the put: when it rejects, the cache has been opened and
  nothing is written, and the handler goes on.
\<close>

definition open_and_put :: "string \<Rightarrow> request \<Rightarrow> response \<Rightarrow> world \<Rightarrow> world" where
  "open_and_put name req r w =
     (let cs1 = caches_open (store w) name
      in case cache_put (caches_get cs1 name) req r of
           Inl e \<Rightarrow> w\<lparr>store := cs1\<rparr>
         | Inr c' \<Rightarrow> w\<lparr>store := caches_update cs1 name (\<lambda>c. c')\<rparr>)"

definition handleStaticAsset :: "network \<Rightarrow> request \<Rightarrow> world \<Rightarrow> response \<times> world" where
  "handleStaticAsset net req w =
     (case caches_match (store w) req of
        Some cachedResponse \<Rightarrow> (cachedResponse, w)
      | None \<Rightarrow>
          (case net_fetch net req w of
             (Fulfilled networkResponse, w1) \<Rightarrow>
               (networkResponse,
                if ok networkResponse then open_and_put STATIC_CACHE req networkResponse w1 else w1)
           | (Rejected, w1) \<Rightarrow>
               (new_Response static_unavailable_text (Some 503) None, w1)))"

definition handleEpubFile :: "network \<Rightarrow> request \<Rightarrow> world \<Rightarrow> response \<times> world" where
  "handleEpubFile net req w =
     (let (p, w1) = net_fetch net req w;
          from_cache =
            (case caches_match (store w1) req of
               Some cachedResponse \<Rightarrow> (cachedResponse, w1)
             | None \<Rightarrow> (new_Response epub_unavailable_text (Some 404) None, w1))
      in case p of
           Fulfilled networkResponse \<Rightarrow>
             if ok networkResponse
             then (networkResponse, open_and_put DYNAMIC_CACHE req networkResponse w1)
             else from_cache
         | Rejected \<Rightarrow> from_cache)"

definition handleDynamicRequest :: "network \<Rightarrow> request \<Rightarrow> world \<Rightarrow> response \<times> world" where
  "handleDynamicRequest net req w =
     (let (p, w1) = net_fetch net req w;
          from_cache =
            (case caches_match (store w1) req of
               Some cachedResponse \<Rightarrow> (cachedResponse, w1)
             | None \<Rightarrow> (offline_page, w1))
      in case p of
           Fulfilled networkResponse \<Rightarrow>
             if ok networkResponse
             then (networkResponse, open_and_put DYNAMIC_CACHE req networkResponse w1)
             else from_cache
         | Rejected \<Rightarrow> from_cache)"

subsection \<open>The fetch listener\<close>

datatype strategy = Static | Document | Other

text \<open>
  \<open>None\<close>: the listener returns without \<^verbatim>\<open>respondWith\<close> and the host handles the
  request itself. Otherwise the strategy that was called, and its result.
\<close>

definition fetch_listener ::
  "network \<Rightarrow> request \<Rightarrow> URL \<Rightarrow> world \<Rightarrow> (strategy \<times> response \<times> world) option" where
  "fetch_listener net req u w =
     (if method req \<noteq> ''GET'' then None
      else if protocol u = ''chrome-extension:'' \<or>
              hostname u = ''chrome-devtools-frontend.appspot.com'' then None
      else if isStaticAsset (url req) then Some (Static, handleStaticAsset net req w)
      else if isEpubFile (url req) then Some (Document, handleEpubFile net req w)
      else Some (Other, handleDynamicRequest net req w))"

subsection \<open>Install and activate\<close>

text \<open>
  \<^verbatim>\<open>cache.addAll\<close> turns every entry of the list into a GET request whose URL is
  the entry resolved against the worker's location. The two forms of the Static Asset
  List are covered: an absolute http or https URL stands for itself, and a reference
  that starts with \<^verbatim>\<open>./\<close> is appended to the directory of the location.
\<close>

definition base_directory :: "string \<Rightarrow> string" where
  "base_directory location =
     rev (dropWhile (\<lambda>c. c \<noteq> CHR ''/'')
            (rev (takeWhile (\<lambda>c. c \<noteq> CHR ''?'' \<and> c \<noteq> CHR ''#'') location)))"

definition resolve_url :: "string \<Rightarrow> string \<Rightarrow> string" where
  "resolve_url location ref =
     (if http_scheme ref then ref
      else if prefix ''./'' ref then base_directory location @ drop 2 ref
      else base_directory location @ ref)"

definition asset_request :: "string \<Rightarrow> string \<Rightarrow> request" where
  "asset_request location asset = \<lparr>method = ''GET'', url = resolve_url location asset\<rparr>"

definition fetch_ok :: "network \<Rightarrow> string \<Rightarrow> response option" where
  "fetch_ok net k =
     (case net k of Rejected \<Rightarrow> None | Fulfilled r \<Rightarrow> if ok r then Some r else None)"

text \<open>
  Failures of the store during install: \<open>open_rejects name\<close> when
  \<^verbatim>\<open>caches.open(name)\<close> rejects, \<open>write_rejects k\<close> when the store cannot
  write the entry of the URL \<open>k\<close> (quota, store unavailable).
\<close>

record store_faults =
  open_rejects :: "string \<Rightarrow> bool"
  write_rejects :: "string \<Rightarrow> bool"

text \<open>
  \<^verbatim>\<open>cache.addAll(requests)\<close> fetches every request and rejects, with the cache as
  it was, when a fetch rejects, a response is not ok, two of the requests match each
  other, a put is rejected or the store fails to write an entry. Otherwise every
  response is put, in the order of the list.
\<close>

fun put_all :: "cache \<Rightarrow> (request \<times> response) list \<Rightarrow> js_error + cache" where
  "put_all c [] = Inr c"
| "put_all c ((req, r) # rest) =
     (case cache_put c req r of Inl e \<Rightarrow> Inl e | Inr c' \<Rightarrow> put_all c' rest)"

definition cache_addAll ::
  "network \<Rightarrow> store_faults \<Rightarrow> cache \<Rightarrow> request list \<Rightarrow> cache settled" where
  "cache_addAll net faults c reqs =
     (case those (map (\<lambda>req. fetch_ok net (url req)) reqs) of
        None \<Rightarrow> Rejected
      | Some rs \<Rightarrow>
          if \<not> distinct (map (\<lambda>req. exclude_fragment (url req)) reqs) then Rejected
          else if list_ex (\<lambda>req. write_rejects faults (url req)) reqs then Rejected
          else (case put_all c (zip reqs rs) of Inl e \<Rightarrow> Rejected | Inr c' \<Rightarrow> Fulfilled c'))"

text \<open>
  What the install handler leaves: how the promise given to \<^verbatim>\<open>event.waitUntil\<close>
  settled, the cache storage, and whether \<^verbatim>\<open>self.skipWaiting()\<close> was called.
  \<open>location\<close> is the URL of the worker script.
\<close>

record installed =
  install_settled :: "unit settled"
  install_store :: cache_storage
  skipWaiting_called :: bool

definition install :: "string \<Rightarrow> network \<Rightarrow> store_faults \<Rightarrow> cache_storage \<Rightarrow> installed" where
  "install location net faults cs =
     (let opened = (if open_rejects faults STATIC_CACHE then Rejected
                    else Fulfilled (caches_open cs STATIC_CACHE));
          added = (case opened of
                     Rejected \<Rightarrow> Rejected
                   | Fulfilled cs1 \<Rightarrow>
                       (case cache_addAll net faults (caches_get cs1 STATIC_CACHE)
                               (map (asset_request location) STATIC_ASSETS) of
                          Rejected \<Rightarrow> Rejected
                        | Fulfilled c \<Rightarrow> Fulfilled (caches_update cs1 STATIC_CACHE (\<lambda>_. c))));
          cs2 = (case added of
                   Fulfilled cs' \<Rightarrow> cs'
                 | Rejected \<Rightarrow> (case opened of Fulfilled cs1 \<Rightarrow> cs1 | Rejected \<Rightarrow> cs));
          skipped = (case added of Fulfilled _ \<Rightarrow> Fulfilled () | Rejected \<Rightarrow> Rejected);
          caught = (case skipped of Fulfilled x \<Rightarrow> Fulfilled x | Rejected \<Rightarrow> Fulfilled ())
      in \<lparr>install_settled = caught,
          install_store = cs2,
          skipWaiting_called = (skipped = Fulfilled ())\<rparr>)"

text \<open>
  Activation. \<open>del_fails\<close> tells for which names \<^verbatim>\<open>caches.delete\<close> rejects. The
  \<^verbatim>\<open>map\<close> starts every deletion before \<^verbatim>\<open>Promise.all\<close> waits for any, so each
  deletion runs whatever the others do; \<^verbatim>\<open>Promise.all\<close> rejects when one does,
  and then \<^verbatim>\<open>clients.claim()\<close> is not reached.
\<close>

record activated =
  activate_settled :: "unit settled"
  activate_store :: cache_storage
  clients_claimed :: bool

definition activate :: "(string \<Rightarrow> bool) \<Rightarrow> cache_storage \<Rightarrow> activated" where
  "activate del_fails cs =
     (let cacheNames = caches_keys cs;
          stale = filter (\<lambda>cacheName. cacheName \<noteq> STATIC_CACHE \<and> cacheName \<noteq> DYNAMIC_CACHE) cacheNames;
          cs1 = fold (\<lambda>cacheName cs'. if del_fails cacheName then cs' else caches_delete cs' cacheName) stale cs;
          all = (if list_ex del_fails stale then Rejected else Fulfilled ())
      in \<lparr>activate_settled = all,
          activate_store = cs1,
          clients_claimed = (all = Fulfilled ())\<rparr>)"

subsection \<open>The eviction sweep\<close>




subsection \<open>Sample inputs\<close>

text \<open>Concrete networks, requests and worlds on which the properties below are run.\<close>

definition offline_network :: network where
  "offline_network = (\<lambda>k. Rejected)"

definition sample_response :: response where
  "sample_response = \<lparr>status = 200, headers = [], body = ''cached copy''\<rparr>"

definition ok_network :: network where
  "ok_network = (\<lambda>k. Fulfilled sample_response)"

definition error_response :: response where
  "error_response = \<lparr>status = 500, headers = [], body = ''server error''\<rparr>"

definition error_network :: network where
  "error_network = (\<lambda>k. Fulfilled error_response)"

definition example_URL :: URL where
  "example_URL = \<lparr>protocol = ''https:'', hostname = ''example.com''\<rparr>"

definition script_request :: request where
  "script_request = \<lparr>method = ''GET'', url = ''https://example.com/app.js''\<rparr>"

definition script_cached_world :: world where
  "script_cached_world =
     \<lparr>store = [(STATIC_CACHE, [(''https://example.com/app.js'', sample_response)])], fetched = []\<rparr>"

definition empty_world :: world where
  "empty_world = \<lparr>store = [], fetched = []\<rparr>"

definition epub_request :: request where
  "epub_request = \<lparr>method = ''GET'', url = ''https://example.com/books/alice.epub''\<rparr>"

text \<open>The same document, addressed with a fragment.\<close>

definition chapter_request :: request where
  "chapter_request = \<lparr>method = ''GET'', url = ''https://example.com/books/alice.epub#ch1''\<rparr>"

definition epub_cached_world :: world where
  "epub_cached_world =
     \<lparr>store = [(DYNAMIC_CACHE, [(''https://example.com/books/alice.epub'', sample_response)])],
      fetched = []\<rparr>"

definition page_request :: request where
  "page_request = \<lparr>method = ''GET'', url = ''https://example.com/library''\<rparr>"

text \<open>
  The body that the specification gives for the 503 response: English, with a long
  dash (U+2014, three bytes).
\<close>

definition spec_static_unavailable_text :: string where
  "spec_static_unavailable_text =
     ''offline mode '' @ [CHR 0xE2, CHR 0x80, CHR 0x94] @ '' resource unavailable''"

definition cdn_epub_request :: request where
  "cdn_epub_request = \<lparr>method = ''GET'', url = ''https://cdn.jsdelivr.net/books/alice.epub''\<rparr>"

definition cdn_URL :: URL where
  "cdn_URL = \<lparr>protocol = ''https:'', hostname = ''cdn.jsdelivr.net''\<rparr>"

definition versioned_epub_request :: request where
  "versioned_epub_request =
     \<lparr>method = ''GET'', url = ''https://example.com/books/alice.epub?v=2.json''\<rparr>"

text \<open>A storage that holds the two current partitions and two stale ones.\<close>

definition old_version_storage :: cache_storage where
  "old_version_storage =
     [(STATIC_CACHE, []), (DYNAMIC_CACHE, []), (''reader-static-v0.9.0'', []), (''leftover'', [])]"

definition no_failure :: "string \<Rightarrow> bool" where
  "no_failure = (\<lambda>cacheName. False)"

definition leftover_fails :: "string \<Rightarrow> bool" where
  "leftover_fails = (\<lambda>cacheName. cacheName = ''leftover'')"

text \<open>The worker's location, a store without failures, and one that cannot write the manifest.\<close>

definition worker_location :: string where
  "worker_location = ''https://example.com/reader/sw.js''"

definition no_faults :: store_faults where
  "no_faults = \<lparr>open_rejects = (\<lambda>name. False), write_rejects = (\<lambda>k. False)\<rparr>"

definition manifest_write_fails :: store_faults where
  "manifest_write_fails =
     \<lparr>open_rejects = (\<lambda>name. False),
      write_rejects = (\<lambda>k. k = ''https://example.com/reader/manifest.json'')\<rparr>"



section \<open>Properties\<close>

subsection \<open>What the listener calls\<close>

lemma listener_Static:
  "fetch_listener net req u w = Some (Static, x) \<Longrightarrow> x = handleStaticAsset net req w"
  by (auto simp: fetch_listener_def split: if_splits)

lemma listener_Document:
  "fetch_listener net req u w = Some (Document, x) \<Longrightarrow> x = handleEpubFile net req w"
  by (auto simp: fetch_listener_def split: if_splits)

lemma listener_Other:
  "fetch_listener net req u w = Some (Other, x) \<Longrightarrow> x = handleDynamicRequest net req w"
  by (auto simp: fetch_listener_def split: if_splits)

subsection \<open>Cache-first strategy\<close>

text \<open>
  C3. A request that the listener hands to the static strategy and whose key some cache
  holds is answered with the cached entry and leaves the world as it was: nothing is
  appended to the log of fetch calls, however often the request is repeated.
\<close>

theorem static_cached_no_fetch:
  assumes "fetch_listener net req u w = Some (Static, resp, w')"
    and "caches_match (store w) req = Some cached"
  shows "resp = cached \<and> w' = w \<and> fetched w' = fetched w \<and>
         fetched (((\<lambda>v. snd (handleStaticAsset net req v)) ^^ n) w) = fetched w"
proof -
  have step: "handleStaticAsset net req w = (cached, w)"
    using assms(2) by (simp add: handleStaticAsset_def)
  have "fetch_listener net req u w = Some (Static, handleStaticAsset net req w)"
    using assms(1) by (auto simp: fetch_listener_def split: if_splits)
  with assms(1) step have rw: "resp = cached \<and> w' = w" by simp
  have "((\<lambda>v. snd (handleStaticAsset net req v)) ^^ n) w = w"
    by (induction n) (simp_all add: step)
  with rw show ?thesis by simp
qed

theorem static_cached_no_fetch_witness:
  "fetch_listener offline_network script_request example_URL script_cached_world
     = Some (Static, sample_response, script_cached_world) \<and>
   caches_match (store script_cached_world) script_request = Some sample_response \<and>
   fetched (((\<lambda>v. snd (handleStaticAsset offline_network script_request v)) ^^ 3) script_cached_world) = []"
proof -
  have h1: "fetch_listener offline_network script_request example_URL script_cached_world
     = Some (Static, sample_response, script_cached_world)"
    by code_simp
  have h2: "caches_match (store script_cached_world) script_request = Some sample_response"
    by code_simp
  have "fetched script_cached_world = []" by (simp add: script_cached_world_def)
  with static_cached_no_fetch [OF h1 h2, of 3] h1 h2 show ?thesis by simp
qed

subsection \<open>Document strategy\<close>

lemma handleEpubFile_rejected:
  "net (url req) = Rejected \<Longrightarrow>
   fst (handleEpubFile net req w) =
     (case caches_match (store w) req of
        Some cached \<Rightarrow> cached
      | None \<Rightarrow> new_Response epub_unavailable_text (Some 404) None)"
  by (simp add: handleEpubFile_def net_fetch_def split: option.splits)

text \<open>
  C4. A request that the listener hands to the document strategy while the network
  rejects the fetch is answered with the entry \<^verbatim>\<open>caches.match\<close> finds for it (a
  stored request with the same URL, fragments excluded), and with a response of status
  404 when no cache has such an entry.
\<close>

theorem document_offline_fallback:
  assumes "fetch_listener net req u w = Some (Document, resp, w')"
    and "net (url req) = Rejected"
  shows "(caches_match (store w) req = Some cached \<longrightarrow> resp = cached) \<and>
         (caches_match (store w) req = None \<longrightarrow> status resp = 404)"
proof -
  have "resp = fst (handleEpubFile net req w)"
    using listener_Document [OF assms(1)] by (metis fst_conv)
  then show ?thesis
    using handleEpubFile_rejected [of net req w] assms(2) by (simp add: new_Response_def)
qed

theorem document_offline_fallback_witness:
  "fetch_listener offline_network chapter_request example_URL epub_cached_world
     = Some (Document, sample_response, epub_cached_world\<lparr>fetched := [url chapter_request]\<rparr>) \<and>
   offline_network (url chapter_request) = Rejected \<and>
   caches_match (store epub_cached_world) chapter_request = Some sample_response \<and>
   fetch_listener offline_network epub_request example_URL empty_world
     = Some (Document, new_Response epub_unavailable_text (Some 404) None,
             empty_world\<lparr>fetched := [url epub_request]\<rparr>) \<and>
   caches_match (store empty_world) epub_request = None \<and>
   status (new_Response epub_unavailable_text (Some 404) None) = 404"
proof -
  have h1: "fetch_listener offline_network chapter_request example_URL epub_cached_world
     = Some (Document, sample_response, epub_cached_world\<lparr>fetched := [url chapter_request]\<rparr>)"
    by code_simp
  have h2: "offline_network (url chapter_request) = Rejected"
    by (simp add: offline_network_def)
  have h3: "caches_match (store epub_cached_world) chapter_request = Some sample_response"
    by code_simp
  have h4: "fetch_listener offline_network epub_request example_URL empty_world
     = Some (Document, new_Response epub_unavailable_text (Some 404) None,
             empty_world\<lparr>fetched := [url epub_request]\<rparr>)"
    by code_simp
  have h2': "offline_network (url epub_request) = Rejected"
    by (simp add: offline_network_def)
  have h5: "caches_match (store empty_world) epub_request = None"
    by (simp add: empty_world_def)
  from document_offline_fallback [OF h4 h2'] h5
  have "status (new_Response epub_unavailable_text (Some 404) None) = 404"
    by simp
  with h1 h2 h3 h4 h5 show ?thesis by simp
qed

subsection \<open>Offline page\<close>

lemma in_lines_sublist_concat:
  "l \<in> set ls \<Longrightarrow> sublist l (concat (map (\<lambda>l. c # l) ls))"
proof (induction ls)
  case Nil
  then show ?case by simp
next
  case (Cons a ls)
  show ?case
  proof (cases "l = a")
    case True
    have "concat (map (\<lambda>l. c # l) (a # ls)) = [c] @ l @ concat (map (\<lambda>l. c # l) ls)"
      using True by simp
    then show ?thesis unfolding sublist_def by blast
  next
    case False
    with Cons obtain ps ss where "concat (map (\<lambda>l. c # l) ls) = ps @ l @ ss"
      unfolding sublist_def by auto
    then have "concat (map (\<lambda>l. c # l) (a # ls)) = ((c # a) @ ps) @ l @ ss"
      by simp
    then show ?thesis unfolding sublist_def by blast
  qed
qed

lemma offline_body_includes:
  assumes "l \<in> set offline_page_lines" and "sublist t l"
  shows "str_includes offline_page_body t"
proof -
  obtain ps ss where "concat (map (\<lambda>l. CHR 0x0A # l) offline_page_lines) = ps @ l @ ss"
    using in_lines_sublist_concat [OF assms(1)] unfolding sublist_def by blast
  moreover obtain qs rs where "l = qs @ t @ rs"
    using assms(2) unfolding sublist_def by blast
  ultimately have "offline_page_body = (ps @ qs) @ t @ (rs @ ss @ [CHR 0x0A] @ ''  '')"
    unfolding offline_page_body_def by simp
  then show ?thesis
    unfolding str_includes_def sublist_def by blast
qed

lemma offline_body_heading: "str_includes offline_page_body offline_heading"
proof -
  let ?l = "''        <h1>'' @ [CHR 0xF0, CHR 0x9F, CHR 0x93, CHR 0x9A] @ '' '' @ offline_heading @ ''</h1>''"
  have "?l \<in> set offline_page_lines"
    by (simp add: offline_page_lines_def offline_heading_def)
  moreover have "sublist offline_heading ?l"
  proof -
    have "?l = (''        <h1>'' @ [CHR 0xF0, CHR 0x9F, CHR 0x93, CHR 0x9A] @ '' '') @
        offline_heading @ ''</h1>''"
      by simp
    then show ?thesis unfolding sublist_def by blast
  qed
  ultimately show ?thesis by (rule offline_body_includes)
qed

lemma offline_body_markup:
  \<open>str_includes offline_page_body ''<html lang=''\<close>
  \<open>str_includes offline_page_body ''<style>''\<close>
  \<open>str_includes offline_page_body ''</style>''\<close>
  \<open>str_includes offline_page_body ''location.reload()''\<close>
proof -
  have \<open>''    <html lang="zh-CN">'' \<in> set offline_page_lines\<close>
    by (simp add: offline_page_lines_def)
  moreover have \<open>sublist ''<html lang='' ''    <html lang="zh-CN">''\<close> by code_simp
  ultimately show \<open>str_includes offline_page_body ''<html lang=''\<close>
    by (rule offline_body_includes)
  have "''      <style>'' \<in> set offline_page_lines"
    by (simp add: offline_page_lines_def)
  moreover have "sublist ''<style>'' ''      <style>''" by code_simp
  ultimately show "str_includes offline_page_body ''<style>''"
    by (rule offline_body_includes)
  have "''      </style>'' \<in> set offline_page_lines"
    by (simp add: offline_page_lines_def)
  moreover have "sublist ''</style>'' ''      </style>''" by code_simp
  ultimately show "str_includes offline_page_body ''</style>''"
    by (rule offline_body_includes)
  let ?b = \<open>''        <button onclick="location.reload()">'' @
      [CHR 0xE9, CHR 0x87, CHR 0x8D, CHR 0xE6, CHR 0x96, CHR 0xB0, CHR 0xE8, CHR 0xBF, CHR 0x9E,
       CHR 0xE6, CHR 0x8E, CHR 0xA5] @ ''</button>''\<close>
  have "?b \<in> set offline_page_lines"
    by (simp add: offline_page_lines_def)
  moreover have "sublist ''location.reload()'' ?b" by code_simp
  ultimately show "str_includes offline_page_body ''location.reload()''"
    by (rule offline_body_includes)
qed

lemma lines_prefix:
  "ls = l # rest \<Longrightarrow> prefix (c # l) (concat (map (\<lambda>l. c # l) ls) @ t)"
  by simp

lemma lines_suffix:
  "ls = front @ [l] \<Longrightarrow> suffix (l @ t) (concat (map (\<lambda>l. c # l) ls) @ t)"
proof -
  assume "ls = front @ [l]"
  then have "concat (map (\<lambda>l. c # l) ls) @ t = (concat (map (\<lambda>l. c # l) front) @ [c]) @ (l @ t)"
    by simp
  then show ?thesis unfolding suffix_def by blast
qed

lemma lines_length:
  "length (concat (map (\<lambda>l. c # l) ls) @ t) = sum_list (map (\<lambda>l. Suc (length l)) ls) + length t"
  by (induction ls) simp_all

lemma offline_body_prefix: "prefix (CHR 0x0A # ''    <!DOCTYPE html>'') offline_page_body"
proof -
  have "offline_page_lines = ''    <!DOCTYPE html>'' # tl offline_page_lines"
    by (simp add: offline_page_lines_def)
  then show ?thesis
    unfolding offline_page_body_def by (rule lines_prefix)
qed

lemma offline_body_suffix: "suffix (''    </html>'' @ [CHR 0x0A] @ ''  '') offline_page_body"
proof -
  have "offline_page_lines = butlast offline_page_lines @ [''    </html>'']"
    by (simp add: offline_page_lines_def)
  then show ?thesis
    unfolding offline_page_body_def by (rule lines_suffix)
qed

lemma offline_body_length: "length offline_page_body = 1535"
proof -
  have "sum_list (map (\<lambda>l. Suc (length l)) offline_page_lines) = 1532" by code_simp
  then show ?thesis
    unfolding offline_page_body_def by (simp only: lines_length) simp
qed

lemma prefix_head_absent:
  "c \<notin> set p \<Longrightarrow> prefix p (c # t) \<Longrightarrow> p = []"
  by (cases p) auto

lemma sublist_across_separator:
  assumes "c \<notin> set p"
    and "sublist p (a @ c # r)"
  shows "sublist p a \<or> sublist p (c # r)"
proof -
  from assms(2) obtain ps ss where eq: "a @ c # r = ps @ p @ ss"
    unfolding sublist_def by blast
  show ?thesis
  proof (cases "length (ps @ p) \<le> length a")
    case True
    have "take (length (ps @ p)) (a @ c # r) = ps @ p"
      using eq by simp
    with True have "take (length (ps @ p)) a = ps @ p" by simp
    then have "a = (ps @ p) @ drop (length (ps @ p)) a"
      by (metis append_take_drop_id)
    then have "a = ps @ p @ drop (length (ps @ p)) a" by simp
    then show ?thesis unfolding sublist_def by blast
  next
    case False
    show ?thesis
    proof (cases "length a \<le> length ps")
      case True
      have "drop (length a) (a @ c # r) = drop (length a) (ps @ p @ ss)"
        using eq by simp
      with True have "c # r = drop (length a) ps @ p @ ss" by simp
      then show ?thesis unfolding sublist_def by blast
    next
      case inner: False
      then have lt: "length ps < length a" by simp
      have inp: "length a - length ps < length p" using False lt by simp
      have "(a @ c # r) ! length a = c" by simp
      moreover have "(ps @ p @ ss) ! length a = (p @ ss) ! (length a - length ps)"
        using lt by (simp add: nth_append)
      moreover have "(p @ ss) ! (length a - length ps) = p ! (length a - length ps)"
        using inp by (simp add: nth_append)
      ultimately have "p ! (length a - length ps) = c" using eq by simp
      with inp have "c \<in> set p" by (metis nth_mem)
      with assms(1) show ?thesis by simp
    qed
  qed
qed

lemma sublist_lines_cases:
  assumes "c \<notin> set p"
    and "sublist p (concat (map (\<lambda>l. c # l) ls) @ c # t)"
  shows "(\<exists>l\<in>set ls. sublist p l) \<or> sublist p t"
  using assms(2)
proof (induction ls)
  case Nil
  then have "prefix p (c # t) \<or> sublist p t" by (simp add: sublist_Cons_right)
  with prefix_head_absent [OF assms(1)] show ?case by auto
next
  case (Cons a ls)
  obtain r where r: "concat (map (\<lambda>l. c # l) ls) @ c # t = c # r"
    by (cases ls) auto
  have "sublist p (c # (a @ c # r))" using Cons.prems r by simp
  then have "prefix p (c # (a @ c # r)) \<or> sublist p (a @ c # r)"
    by (simp only: sublist_Cons_right)
  then consider "p = []" | "sublist p (a @ c # r)"
    using prefix_head_absent [OF assms(1)] by blast
  then show ?case
  proof cases
    case 1
    then show ?thesis by simp
  next
    case 2
    from sublist_across_separator [OF assms(1) 2]
    show ?thesis
    proof
      assume "sublist p a"
      then show ?thesis by simp
    next
      assume "sublist p (c # r)"
      then have "sublist p (concat (map (\<lambda>l. c # l) ls) @ c # t)" by (simp only: r)
      from Cons.IH [OF this] show ?thesis by auto
    qed
  qed
qed

lemma offline_body_excludes:
  assumes "CHR 0x0A \<notin> set p"
    and "list_all (\<lambda>l. \<not> sublist p l) offline_page_lines"
    and "\<not> sublist p ''  ''"
  shows "\<not> str_includes offline_page_body p"
proof
  assume "str_includes offline_page_body p"
  then have "sublist p (concat (map (\<lambda>l. CHR 0x0A # l) offline_page_lines) @ CHR 0x0A # ''  '')"
    by (simp add: str_includes_def offline_page_body_def)
  from sublist_lines_cases [OF assms(1) this] assms(2,3)
  show False by (auto simp: list_all_iff)
qed

lemma offline_body_self_contained:
  "list_all (\<lambda>p. \<not> str_includes offline_page_body p) external_reference_marks"
proof -
  have "list_all (\<lambda>p. CHR 0x0A \<notin> set p \<and> list_all (\<lambda>l. \<not> sublist p l) offline_page_lines \<and>
          \<not> sublist p ''  '') external_reference_marks"
    by code_simp
  then have all: "\<forall>p\<in>set external_reference_marks.
      CHR 0x0A \<notin> set p \<and> list_all (\<lambda>l. \<not> sublist p l) offline_page_lines \<and> \<not> sublist p ''  ''"
    by (simp only: list_all_iff)
  have "\<forall>p\<in>set external_reference_marks. \<not> str_includes offline_page_body p"
  proof
    fix p assume "p \<in> set external_reference_marks"
    with all have "CHR 0x0A \<notin> set p" "list_all (\<lambda>l. \<not> sublist p l) offline_page_lines"
      "\<not> sublist p ''  ''"
      by blast+
    then show "\<not> str_includes offline_page_body p" by (rule offline_body_excludes)
  qed
  then show ?thesis by (simp only: list_all_iff)
qed

lemma offline_page_fields:
  "status offline_page = 200"
  "headers offline_page = [(''Content-Type'', ''text/html; charset=utf-8'')]"
  "body offline_page = offline_page_body"
  by (simp_all add: offline_page_def new_Response_def)

lemma synthetic_status:
  "status (new_Response static_unavailable_text (Some 503) None) = 503"
  "status (new_Response epub_unavailable_text (Some 404) None) = 404"
  by (simp_all add: new_Response_def)

lemma handleDynamicRequest_rejected:
  "net (url req) = Rejected \<Longrightarrow>
   fst (handleDynamicRequest net req w) =
     (case caches_match (store w) req of
        Some cached \<Rightarrow> cached
      | None \<Rightarrow> offline_page)"
  by (simp add: handleDynamicRequest_def net_fetch_def split: option.splits)

lemma handleStaticAsset_cases:
  "fst (handleStaticAsset net req w) =
     (case caches_match (store w) req of
        Some cached \<Rightarrow> cached
      | None \<Rightarrow>
          (case net (url req) of
             Fulfilled r \<Rightarrow> r
           | Rejected \<Rightarrow> new_Response static_unavailable_text (Some 503) None))"
  by (simp add: handleStaticAsset_def net_fetch_def split: option.splits settled.splits)

lemma handleEpubFile_cases:
  "fst (handleEpubFile net req w) =
     (case fetch_ok net (url req) of
        Some r \<Rightarrow> r
      | None \<Rightarrow>
          (case caches_match (store w) req of
             Some cached \<Rightarrow> cached
           | None \<Rightarrow> new_Response epub_unavailable_text (Some 404) None))"
  by (simp add: handleEpubFile_def net_fetch_def fetch_ok_def
      split: option.splits settled.splits)

lemma handleDynamicRequest_cases:
  "fst (handleDynamicRequest net req w) =
     (case fetch_ok net (url req) of
        Some r \<Rightarrow> r
      | None \<Rightarrow>
          (case caches_match (store w) req of
             Some cached \<Rightarrow> cached
           | None \<Rightarrow> offline_page))"
  by (simp add: handleDynamicRequest_def net_fetch_def fetch_ok_def
      split: option.splits settled.splits)

lemma fetch_ok_Some: "fetch_ok net k = Some r \<Longrightarrow> net k = Fulfilled r"
  by (auto simp: fetch_ok_def split: settled.splits if_splits)

text \<open>
  C5. A request that the listener hands to the third strategy while the network rejects
  the fetch and no cache has a matching entry is answered with the offline page: status
  200, content type \<^verbatim>\<open>text/html; charset=utf-8\<close>, and a body of 1535 bytes that
  opens with the doctype and closes with the end of the \<^verbatim>\<open>html\<close> element, has
  its styles inline, contains the page's heading and the reload button, and contains no
  mark of a reference to another resource. The page is built nowhere else: whenever the
  static or the document strategy answers with it, the network or a cache supplied it,
  and the third strategy answers with it otherwise only when the network gave no ok
  response and no cache had a matching entry.
\<close>

theorem offline_page_fallback:
  "(fetch_listener net req u w = Some (Other, resp, w') \<and> net (url req) = Rejected \<and>
    caches_match (store w) req = None \<longrightarrow>
      resp = offline_page \<and> status resp = 200 \<and>
      headers resp = [(''Content-Type'', ''text/html; charset=utf-8'')] \<and>
      body resp = offline_page_body \<and>
      length (body resp) = 1535 \<and>
      prefix (CHR 0x0A # ''    <!DOCTYPE html>'') (body resp) \<and>
      suffix (''    </html>'' @ [CHR 0x0A] @ ''  '') (body resp) \<and>
      str_includes (body resp) ''<html lang='' \<and>
      str_includes (body resp) ''<style>'' \<and>
      str_includes (body resp) ''</style>'' \<and>
      str_includes (body resp) offline_heading \<and>
      str_includes (body resp) ''location.reload()'' \<and>
      list_all (\<lambda>p. \<not> str_includes (body resp) p) external_reference_marks) \<and>
   (fst (handleStaticAsset net req w) = offline_page \<longrightarrow>
      net (url req) = Fulfilled offline_page \<or>
      caches_match (store w) req = Some offline_page) \<and>
   (fst (handleEpubFile net req w) = offline_page \<longrightarrow>
      net (url req) = Fulfilled offline_page \<or>
      caches_match (store w) req = Some offline_page) \<and>
   (fst (handleDynamicRequest net req w) = offline_page \<longrightarrow>
      net (url req) = Fulfilled offline_page \<or>
      caches_match (store w) req = Some offline_page \<or>
      (fetch_ok net (url req) = None \<and> caches_match (store w) req = None))"
proof (intro conjI impI)
  assume a: "fetch_listener net req u w = Some (Other, resp, w') \<and> net (url req) = Rejected \<and>
    caches_match (store w) req = None"
  then have "resp = fst (handleDynamicRequest net req w)"
    using listener_Other [of net req u w "(resp, w')"] by (metis fst_conv)
  with a show r: "resp = offline_page"
    using handleDynamicRequest_rejected [of net req w] by simp
  then have b: "body resp = offline_page_body" by (simp add: offline_page_fields)
  from r show "status resp = 200"
    and "headers resp = [(''Content-Type'', ''text/html; charset=utf-8'')]"
    by (simp_all add: offline_page_fields)
  from b show "body resp = offline_page_body" .
  from b show "length (body resp) = 1535" by (simp only: offline_body_length)
  from b show "prefix (CHR 0x0A # ''    <!DOCTYPE html>'') (body resp)"
    by (simp only: offline_body_prefix)
  from b show "suffix (''    </html>'' @ [CHR 0x0A] @ ''  '') (body resp)"
    by (simp only: offline_body_suffix)
  from b show "str_includes (body resp) ''<html lang=''"
    and "str_includes (body resp) ''<style>''"
    and "str_includes (body resp) ''</style>''"
    and "str_includes (body resp) ''location.reload()''"
    by (simp_all only: offline_body_markup)
  from b show "str_includes (body resp) offline_heading"
    by (simp only: offline_body_heading)
  from b show "list_all (\<lambda>p. \<not> str_includes (body resp) p) external_reference_marks"
    by (simp only: offline_body_self_contained)
next
  assume "fst (handleStaticAsset net req w) = offline_page"
  then show "net (url req) = Fulfilled offline_page \<or>
      caches_match (store w) req = Some offline_page"
    using synthetic_status(1) offline_page_fields(1)
    by (auto simp: handleStaticAsset_cases split: option.splits settled.splits)
next
  assume "fst (handleEpubFile net req w) = offline_page"
  then show "net (url req) = Fulfilled offline_page \<or>
      caches_match (store w) req = Some offline_page"
    using synthetic_status(2) offline_page_fields(1)
    by (auto simp: handleEpubFile_cases split: option.splits dest: fetch_ok_Some)
next
  assume "fst (handleDynamicRequest net req w) = offline_page"
  then show "net (url req) = Fulfilled offline_page \<or>
      caches_match (store w) req = Some offline_page \<or>
      (fetch_ok net (url req) = None \<and> caches_match (store w) req = None)"
    by (auto simp: handleDynamicRequest_cases split: option.splits dest: fetch_ok_Some)
qed

theorem offline_page_fallback_witness:
  "fetch_listener offline_network page_request example_URL empty_world
     = Some (Other, offline_page, empty_world\<lparr>fetched := [url page_request]\<rparr>) \<and>
   offline_network (url page_request) = Rejected \<and>
   caches_match (store empty_world) page_request = None \<and>
   status offline_page = 200 \<and>
   headers offline_page = [(''Content-Type'', ''text/html; charset=utf-8'')] \<and>
   length (body offline_page) = 1535 \<and>
   prefix (CHR 0x0A # ''    <!DOCTYPE html>'') (body offline_page) \<and>
   str_includes (body offline_page) offline_heading \<and>
   list_all (\<lambda>p. \<not> str_includes (body offline_page) p) external_reference_marks \<and>
   fst (handleStaticAsset offline_network page_request empty_world) \<noteq> offline_page \<and>
   fst (handleEpubFile offline_network page_request empty_world) \<noteq> offline_page"
proof -
  have h1: "fetch_listener offline_network page_request example_URL empty_world
     = Some (Other, handleDynamicRequest offline_network page_request empty_world)"
    by code_simp
  have h2: "offline_network (url page_request) = Rejected"
    by (simp add: offline_network_def)
  have h3: "caches_match (store empty_world) page_request = None"
    by (simp add: empty_world_def)
  have h4: "handleDynamicRequest offline_network page_request empty_world
     = (offline_page, empty_world\<lparr>fetched := [url page_request]\<rparr>)"
    by (simp add: handleDynamicRequest_def net_fetch_def offline_network_def empty_world_def)
  note t = offline_page_fallback [of offline_network page_request example_URL empty_world
      offline_page "empty_world\<lparr>fetched := [url page_request]\<rparr>"]
  from t h1 h2 h3 h4 show ?thesis by auto
qed

subsection \<open>Responses that are not ok\<close>

lemma handleStaticAsset_store_not_ok:
  "net (url req) = Fulfilled r \<Longrightarrow> \<not> ok r \<Longrightarrow>
   store (snd (handleStaticAsset net req w)) = store w"
  by (simp add: handleStaticAsset_def net_fetch_def split: option.splits)

lemma handleEpubFile_store_not_ok:
  "net (url req) = Fulfilled r \<Longrightarrow> \<not> ok r \<Longrightarrow>
   store (snd (handleEpubFile net req w)) = store w"
  by (simp add: handleEpubFile_def net_fetch_def split: option.splits)

lemma handleDynamicRequest_store_not_ok:
  "net (url req) = Fulfilled r \<Longrightarrow> \<not> ok r \<Longrightarrow>
   store (snd (handleDynamicRequest net req w)) = store w"
  by (simp add: handleDynamicRequest_def net_fetch_def split: option.splits)

text \<open>
  C6. When the network answers a request with a response whose status is outside
  200..299, each of the three strategies leaves the cache storage exactly as it was:
  no cache is created and no entry is written.
\<close>

theorem non_ok_never_stored:
  assumes "net (url req) = Fulfilled r" and "\<not> ok r"
  shows "store (snd (handleStaticAsset net req w)) = store w \<and>
         store (snd (handleEpubFile net req w)) = store w \<and>
         store (snd (handleDynamicRequest net req w)) = store w"
  using assms handleStaticAsset_store_not_ok handleEpubFile_store_not_ok
    handleDynamicRequest_store_not_ok by blast

theorem non_ok_never_stored_witness:
  "error_network (url page_request) = Fulfilled error_response \<and> \<not> ok error_response \<and>
   store (snd (handleStaticAsset error_network page_request empty_world)) = [] \<and>
   store (snd (handleEpubFile error_network page_request empty_world)) = [] \<and>
   store (snd (handleDynamicRequest error_network page_request empty_world)) = []"
proof -
  have h1: "error_network (url page_request) = Fulfilled error_response"
    by (simp add: error_network_def)
  have h2: "\<not> ok error_response"
    by (simp add: ok_def error_response_def)
  have "store empty_world = []" by (simp add: empty_world_def)
  with non_ok_never_stored [of error_network page_request error_response empty_world] h1 h2
  show ?thesis by simp
qed

subsection \<open>Static strategy on a cache miss\<close>

text \<open>
  C7, as the specification words it: on a cache miss, a failed fetch gives the 503
  response whose body is the English text "offline mode - resource unavailable" (with
  a long dash). It fails twice on a script request that is in no cache. When the
  network rejects the fetch, the body is the source's Chinese text, not the English
  one. When the network answers with status 500, the strategy hands that answer on,
  so the status is 500 and not 503.
\<close>

theorem static_unavailable_counterexample:
  "fetch_listener offline_network script_request example_URL empty_world
     = Some (Static, handleStaticAsset offline_network script_request empty_world) \<and>
   caches_match (store empty_world) script_request = None \<and>
   offline_network (url script_request) = Rejected \<and>
   body (fst (handleStaticAsset offline_network script_request empty_world))
     \<noteq> spec_static_unavailable_text \<and>
   fetch_listener error_network script_request example_URL empty_world
     = Some (Static, handleStaticAsset error_network script_request empty_world) \<and>
   fetch_ok error_network (url script_request) = None \<and>
   status (fst (handleStaticAsset error_network script_request empty_world)) = 500 \<and>
   status (fst (handleStaticAsset error_network script_request empty_world)) \<noteq> 503"
proof -
  have "fetch_listener offline_network script_request example_URL empty_world
     = Some (Static, handleStaticAsset offline_network script_request empty_world)"
    by code_simp
  moreover have "caches_match (store empty_world) script_request = None"
    by (simp add: empty_world_def)
  moreover have "offline_network (url script_request) = Rejected"
    by (simp add: offline_network_def)
  moreover have "body (fst (handleStaticAsset offline_network script_request empty_world))
     = static_unavailable_text"
    by (simp add: handleStaticAsset_cases empty_world_def offline_network_def new_Response_def)
  moreover have "static_unavailable_text \<noteq> spec_static_unavailable_text"
    by (simp add: static_unavailable_text_def spec_static_unavailable_text_def)
  moreover have "fetch_listener error_network script_request example_URL empty_world
     = Some (Static, handleStaticAsset error_network script_request empty_world)"
    by code_simp
  moreover have "fetch_ok error_network (url script_request) = None"
    by (simp add: fetch_ok_def error_network_def ok_def error_response_def)
  moreover have "status (fst (handleStaticAsset error_network script_request empty_world)) = 500"
    by (simp add: handleStaticAsset_cases empty_world_def error_network_def error_response_def)
  ultimately show ?thesis by simp
qed

text \<open>
  C7, amended. Take a request that the listener hands to the static strategy and that
  no cache holds. When the network rejects the fetch, the answer is a response of
  status 503 whose body is the source's fixed text \<open>static_unavailable_text\<close>, and the
  world gains the one fetch call and nothing else. When the network answers, the
  answer itself is returned, whatever its status, and an answer that is not ok leaves
  the cache storage as it was.
\<close>

theorem static_miss_outcomes:
  assumes "fetch_listener net req u w = Some (Static, resp, w')"
    and "caches_match (store w) req = None"
  shows "(net (url req) = Rejected \<longrightarrow>
            status resp = 503 \<and> body resp = static_unavailable_text \<and>
            resp = new_Response static_unavailable_text (Some 503) None \<and>
            w' = w\<lparr>fetched := fetched w @ [url req]\<rparr>) \<and>
         (\<forall>r. net (url req) = Fulfilled r \<longrightarrow>
            resp = r \<and> fetched w' = fetched w @ [url req] \<and>
            (\<not> ok r \<longrightarrow> store w' = store w))"
proof -
  have eq: "(resp, w') = handleStaticAsset net req w"
    using listener_Static [OF assms(1)] .
  have "net (url req) = Rejected \<Longrightarrow>
      handleStaticAsset net req w = (new_Response static_unavailable_text (Some 503) None,
                    w\<lparr>fetched := fetched w @ [url req]\<rparr>)"
    using assms(2) by (simp add: handleStaticAsset_def net_fetch_def)
  with eq have a: "net (url req) = Rejected \<Longrightarrow>
      resp = new_Response static_unavailable_text (Some 503) None \<and>
      w' = w\<lparr>fetched := fetched w @ [url req]\<rparr>"
    by simp
  have "\<And>r. net (url req) = Fulfilled r \<Longrightarrow>
      handleStaticAsset net req w =
        (r, if ok r then open_and_put STATIC_CACHE req r (w\<lparr>fetched := fetched w @ [url req]\<rparr>)
            else w\<lparr>fetched := fetched w @ [url req]\<rparr>)"
    using assms(2) by (simp add: handleStaticAsset_def net_fetch_def)
  with eq have b: "\<And>r. net (url req) = Fulfilled r \<Longrightarrow>
      resp = r \<and> fetched w' = fetched w @ [url req] \<and> (\<not> ok r \<longrightarrow> store w' = store w)"
    by (auto simp: open_and_put_def Let_def split: sum.splits)
  from a b show ?thesis by (auto simp: new_Response_def)
qed

theorem static_miss_outcomes_witness:
  "fetch_listener offline_network script_request example_URL empty_world
     = Some (Static, new_Response static_unavailable_text (Some 503) None,
             empty_world\<lparr>fetched := [url script_request]\<rparr>) \<and>
   caches_match (store empty_world) script_request = None \<and>
   offline_network (url script_request) = Rejected \<and>
   status (new_Response static_unavailable_text (Some 503) None) = 503 \<and>
   body (new_Response static_unavailable_text (Some 503) None) = static_unavailable_text \<and>
   fetch_listener error_network script_request example_URL empty_world
     = Some (Static, error_response, empty_world\<lparr>fetched := [url script_request]\<rparr>) \<and>
   error_network (url script_request) = Fulfilled error_response \<and>
   \<not> ok error_response"
proof -
  have h1: "fetch_listener offline_network script_request example_URL empty_world
     = Some (Static, new_Response static_unavailable_text (Some 503) None,
             empty_world\<lparr>fetched := [url script_request]\<rparr>)"
    by code_simp
  have h2: "caches_match (store empty_world) script_request = None"
    by (simp add: empty_world_def)
  have h3: "offline_network (url script_request) = Rejected"
    by (simp add: offline_network_def)
  have h4: "fetch_listener error_network script_request example_URL empty_world
     = Some (Static, error_response, empty_world\<lparr>fetched := [url script_request]\<rparr>)"
    by code_simp
  have h5: "error_network (url script_request) = Fulfilled error_response"
    by (simp add: error_network_def)
  have h6: "\<not> ok error_response" by (simp add: ok_def error_response_def)
  from static_miss_outcomes [OF h1 h2] h3
  have "status (new_Response static_unavailable_text (Some 503) None) = 503 \<and>
    body (new_Response static_unavailable_text (Some 503) None) = static_unavailable_text"
    by blast
  moreover from static_miss_outcomes [OF h4 h2] h5 h6
  have "store (empty_world\<lparr>fetched := [url script_request]\<rparr>) = store empty_world"
    by blast
  ultimately show ?thesis using h1 h2 h3 h4 h5 h6 by blast
qed

subsection \<open>Document strategy and third strategy compared\<close>

lemma caches_get_open: "caches_get (caches_open cs name) name = caches_get cs name"
proof (cases "name \<in> set (map fst cs)")
  case True
  then show ?thesis by (simp add: caches_open_def)
next
  case False
  then have "map_of cs name = None" by (simp add: map_of_eq_None_iff)
  with False show ?thesis by (simp add: caches_open_def caches_get_def map_add_def)
qed

lemma caches_open_names: "name \<in> set (map fst (caches_open cs name))"
  by (simp add: caches_open_def)

lemma caches_get_update:
  "name \<in> set (map fst cs) \<Longrightarrow> caches_get (caches_update cs name f) name = f (caches_get cs name)"
  by (induction cs) (auto simp: caches_update_def caches_get_def)

lemma find_after_filter:
  "P x \<Longrightarrow> find P (filter (\<lambda>e. \<not> P e) xs @ [x]) = Some x"
  by (induction xs) simp_all

lemma cache_match_put:
  assumes "cache_put c req r = Inr c'"
  shows "c' = filter (\<lambda>e. \<not> url_matches (fst e) (url req)) c @ [(url req, r)]"
    and "cache_match c' req = Some r"
proof -
  from assms have acc: "\<not> put_rejected req r"
    by (auto simp: cache_put_def split: if_splits)
  with assms show c': "c' = filter (\<lambda>e. \<not> url_matches (fst e) (url req)) c @ [(url req, r)]"
    by (simp add: cache_put_def)
  from acc have get: "method req = ''GET''" by (simp add: put_rejected_def)
  have "find (\<lambda>e. url_matches (fst e) (url req))
          (filter (\<lambda>e. \<not> url_matches (fst e) (url req)) c @ [(url req, r)]) = Some (url req, r)"
    by (rule find_after_filter) (simp add: url_matches_def)
  with c' get show "cache_match c' req = Some r"
    by (simp add: cache_match_def)
qed

lemma open_and_put_accepted:
  assumes "\<not> put_rejected req r"
  shows "caches_get (store (open_and_put name req r w)) name
           = filter (\<lambda>e. \<not> url_matches (fst e) (url req)) (caches_get (store w) name) @ [(url req, r)]"
    and "cache_match (caches_get (store (open_and_put name req r w)) name) req = Some r"
    and "fetched (open_and_put name req r w) = fetched w"
proof -
  let ?c' = "filter (\<lambda>e. \<not> url_matches (fst e) (url req)) (caches_get (store w) name) @ [(url req, r)]"
  have put: "cache_put (caches_get (store w) name) req r = Inr ?c'"
    using assms by (simp add: cache_put_def)
  then have w': "open_and_put name req r w
      = w\<lparr>store := caches_update (caches_open (store w) name) name (\<lambda>c. ?c')\<rparr>"
    by (simp add: open_and_put_def Let_def caches_get_open)
  then show g: "caches_get (store (open_and_put name req r w)) name = ?c'"
    using caches_get_update [where name = name and cs = "caches_open (store w) name"
        and f = "\<lambda>c. ?c'"] caches_open_names [of name "store w"]
    by simp
  from cache_match_put(2) [OF put] g
  show "cache_match (caches_get (store (open_and_put name req r w)) name) req = Some r"
    by simp
  from w' show "fetched (open_and_put name req r w) = fetched w" by simp
qed

lemma open_and_put_rejected:
  "put_rejected req r \<Longrightarrow> open_and_put name req r w = w\<lparr>store := caches_open (store w) name\<rparr>"
  by (simp add: open_and_put_def Let_def cache_put_def)

lemma handleEpubFile_world:
  "snd (handleEpubFile net req w) =
     (case fetch_ok net (url req) of
        Some r \<Rightarrow> open_and_put DYNAMIC_CACHE req r (w\<lparr>fetched := fetched w @ [url req]\<rparr>)
      | None \<Rightarrow> w\<lparr>fetched := fetched w @ [url req]\<rparr>)"
  by (simp add: handleEpubFile_def net_fetch_def fetch_ok_def
      split: option.splits settled.splits)

lemma handleDynamicRequest_world:
  "snd (handleDynamicRequest net req w) =
     (case fetch_ok net (url req) of
        Some r \<Rightarrow> open_and_put DYNAMIC_CACHE req r (w\<lparr>fetched := fetched w @ [url req]\<rparr>)
      | None \<Rightarrow> w\<lparr>fetched := fetched w @ [url req]\<rparr>)"
  by (simp add: handleDynamicRequest_def net_fetch_def fetch_ok_def
      split: option.splits settled.splits)

text \<open>
  C10. For the same network, request and world, the document strategy and the third
  strategy leave the same world (same cache storage, same fetch calls). They return the
  same response whenever the network gives an ok response or a cache has a matching
  entry. On an ok response \<open>r\<close> both return \<open>r\<close> and both write the same entry: when the
  store accepts the put, the dynamic partition afterwards is the old one without the
  entries that match the request, followed by the entry of the request's URL with \<open>r\<close>,
  so that a lookup of the request in it finds \<open>r\<close>; when the store rejects the put, the
  partition has been opened and nothing else changed. Without an ok response neither
  writes. When there is neither an ok response nor a matching entry, the document
  strategy returns the 404 response and the third strategy the offline page of status
  200.
\<close>

theorem document_other_equivalent:
  "snd (handleEpubFile net req w) = snd (handleDynamicRequest net req w) \<and>
   (fetch_ok net (url req) \<noteq> None \<or> caches_match (store w) req \<noteq> None \<longrightarrow>
      handleEpubFile net req w = handleDynamicRequest net req w) \<and>
   (\<forall>r. fetch_ok net (url req) = Some r \<longrightarrow>
      fst (handleEpubFile net req w) = r \<and> fst (handleDynamicRequest net req w) = r \<and>
      (\<not> put_rejected req r \<longrightarrow>
         caches_get (store (snd (handleEpubFile net req w))) DYNAMIC_CACHE
           = filter (\<lambda>e. \<not> url_matches (fst e) (url req)) (caches_get (store w) DYNAMIC_CACHE)
             @ [(url req, r)] \<and>
         caches_get (store (snd (handleDynamicRequest net req w))) DYNAMIC_CACHE
           = filter (\<lambda>e. \<not> url_matches (fst e) (url req)) (caches_get (store w) DYNAMIC_CACHE)
             @ [(url req, r)] \<and>
         cache_match (caches_get (store (snd (handleEpubFile net req w))) DYNAMIC_CACHE) req
           = Some r \<and>
         cache_match (caches_get (store (snd (handleDynamicRequest net req w))) DYNAMIC_CACHE) req
           = Some r) \<and>
      (put_rejected req r \<longrightarrow>
         store (snd (handleEpubFile net req w)) = caches_open (store w) DYNAMIC_CACHE \<and>
         store (snd (handleDynamicRequest net req w)) = caches_open (store w) DYNAMIC_CACHE)) \<and>
   (fetch_ok net (url req) = None \<longrightarrow>
      store (snd (handleEpubFile net req w)) = store w \<and>
      store (snd (handleDynamicRequest net req w)) = store w) \<and>
   (fetch_ok net (url req) = None \<and> caches_match (store w) req = None \<longrightarrow>
      fst (handleEpubFile net req w) = new_Response epub_unavailable_text (Some 404) None \<and>
      status (fst (handleEpubFile net req w)) = 404 \<and>
      fst (handleDynamicRequest net req w) = offline_page \<and>
      status (fst (handleDynamicRequest net req w)) = 200)"
proof -
  let ?w1 = "w\<lparr>fetched := fetched w @ [url req]\<rparr>"
  have w: "snd (handleEpubFile net req w) = snd (handleDynamicRequest net req w)"
    by (simp add: handleEpubFile_world handleDynamicRequest_world)
  have "fetch_ok net (url req) \<noteq> None \<or> caches_match (store w) req \<noteq> None \<Longrightarrow>
      fst (handleEpubFile net req w) = fst (handleDynamicRequest net req w)"
    by (auto simp: handleEpubFile_cases handleDynamicRequest_cases split: option.splits)
  with w have e: "fetch_ok net (url req) \<noteq> None \<or> caches_match (store w) req \<noteq> None \<longrightarrow>
      handleEpubFile net req w = handleDynamicRequest net req w"
    by (simp add: prod_eq_iff)
  have written: "\<forall>r. fetch_ok net (url req) = Some r \<longrightarrow>
      fst (handleEpubFile net req w) = r \<and> fst (handleDynamicRequest net req w) = r \<and>
      (\<not> put_rejected req r \<longrightarrow>
         caches_get (store (snd (handleEpubFile net req w))) DYNAMIC_CACHE
           = filter (\<lambda>e. \<not> url_matches (fst e) (url req)) (caches_get (store w) DYNAMIC_CACHE)
             @ [(url req, r)] \<and>
         caches_get (store (snd (handleDynamicRequest net req w))) DYNAMIC_CACHE
           = filter (\<lambda>e. \<not> url_matches (fst e) (url req)) (caches_get (store w) DYNAMIC_CACHE)
             @ [(url req, r)] \<and>
         cache_match (caches_get (store (snd (handleEpubFile net req w))) DYNAMIC_CACHE) req
           = Some r \<and>
         cache_match (caches_get (store (snd (handleDynamicRequest net req w))) DYNAMIC_CACHE) req
           = Some r) \<and>
      (put_rejected req r \<longrightarrow>
         store (snd (handleEpubFile net req w)) = caches_open (store w) DYNAMIC_CACHE \<and>
         store (snd (handleDynamicRequest net req w)) = caches_open (store w) DYNAMIC_CACHE)"
  proof (intro allI impI)
    fix r assume f: "fetch_ok net (url req) = Some r"
    then have s: "snd (handleEpubFile net req w) = open_and_put DYNAMIC_CACHE req r ?w1"
      by (simp add: handleEpubFile_world)
    from f have r1: "fst (handleEpubFile net req w) = r"
      and r2: "fst (handleDynamicRequest net req w) = r"
      by (simp_all add: handleEpubFile_cases handleDynamicRequest_cases)
    have acc: "\<not> put_rejected req r \<Longrightarrow>
        caches_get (store (open_and_put DYNAMIC_CACHE req r ?w1)) DYNAMIC_CACHE
          = filter (\<lambda>e. \<not> url_matches (fst e) (url req)) (caches_get (store w) DYNAMIC_CACHE)
            @ [(url req, r)] \<and>
        cache_match (caches_get (store (open_and_put DYNAMIC_CACHE req r ?w1)) DYNAMIC_CACHE) req
          = Some r"
      using open_and_put_accepted(1,2) [of req r DYNAMIC_CACHE ?w1] by simp
    have rej: "put_rejected req r \<Longrightarrow>
        store (open_and_put DYNAMIC_CACHE req r ?w1) = caches_open (store w) DYNAMIC_CACHE"
      by (simp add: open_and_put_rejected)
    from r1 r2 acc rej
    show "fst (handleEpubFile net req w) = r \<and> fst (handleDynamicRequest net req w) = r \<and>
      (\<not> put_rejected req r \<longrightarrow>
         caches_get (store (snd (handleEpubFile net req w))) DYNAMIC_CACHE
           = filter (\<lambda>e. \<not> url_matches (fst e) (url req)) (caches_get (store w) DYNAMIC_CACHE)
             @ [(url req, r)] \<and>
         caches_get (store (snd (handleDynamicRequest net req w))) DYNAMIC_CACHE
           = filter (\<lambda>e. \<not> url_matches (fst e) (url req)) (caches_get (store w) DYNAMIC_CACHE)
             @ [(url req, r)] \<and>
         cache_match (caches_get (store (snd (handleEpubFile net req w))) DYNAMIC_CACHE) req
           = Some r \<and>
         cache_match (caches_get (store (snd (handleDynamicRequest net req w))) DYNAMIC_CACHE) req
           = Some r) \<and>
      (put_rejected req r \<longrightarrow>
         store (snd (handleEpubFile net req w)) = caches_open (store w) DYNAMIC_CACHE \<and>
         store (snd (handleDynamicRequest net req w)) = caches_open (store w) DYNAMIC_CACHE)"
      unfolding w [symmetric] s by blast
  qed
  have none: "fetch_ok net (url req) = None \<longrightarrow>
      store (snd (handleEpubFile net req w)) = store w \<and>
      store (snd (handleDynamicRequest net req w)) = store w"
    by (simp add: handleEpubFile_world handleDynamicRequest_world)
  have last: "fetch_ok net (url req) = None \<and> caches_match (store w) req = None \<longrightarrow>
      fst (handleEpubFile net req w) = new_Response epub_unavailable_text (Some 404) None \<and>
      status (fst (handleEpubFile net req w)) = 404 \<and>
      fst (handleDynamicRequest net req w) = offline_page \<and>
      status (fst (handleDynamicRequest net req w)) = 200"
    by (simp add: handleEpubFile_cases handleDynamicRequest_cases synthetic_status
        offline_page_fields)
  from w e written none last show ?thesis by blast
qed

theorem document_other_equivalent_witness:
  "fetch_ok ok_network (url epub_request) = Some sample_response \<and>
   \<not> put_rejected epub_request sample_response \<and>
   handleEpubFile ok_network epub_request empty_world
     = handleDynamicRequest ok_network epub_request empty_world \<and>
   fst (handleEpubFile ok_network epub_request empty_world) = sample_response \<and>
   store (snd (handleEpubFile ok_network epub_request empty_world))
     = [(DYNAMIC_CACHE, [(url epub_request, sample_response)])] \<and>
   cache_match (caches_get (store (snd (handleDynamicRequest ok_network epub_request empty_world)))
       DYNAMIC_CACHE) epub_request = Some sample_response \<and>
   fetch_ok offline_network (url epub_request) = None \<and>
   caches_match (store epub_cached_world) epub_request \<noteq> None \<and>
   handleEpubFile offline_network epub_request epub_cached_world
     = handleDynamicRequest offline_network epub_request epub_cached_world \<and>
   caches_match (store empty_world) epub_request = None \<and>
   status (fst (handleEpubFile offline_network epub_request empty_world)) = 404 \<and>
   status (fst (handleDynamicRequest offline_network epub_request empty_world)) = 200"
proof -
  have k1: "fetch_ok ok_network (url epub_request) = Some sample_response"
    by (simp add: fetch_ok_def ok_network_def ok_def sample_response_def)
  have k2: "\<not> put_rejected epub_request sample_response" by code_simp
  have k3: "store (snd (handleEpubFile ok_network epub_request empty_world))
     = [(DYNAMIC_CACHE, [(url epub_request, sample_response)])]"
    by code_simp
  note ok_case = document_other_equivalent [of ok_network epub_request empty_world]
  have a: "handleEpubFile ok_network epub_request empty_world
     = handleDynamicRequest ok_network epub_request empty_world"
    using ok_case k1 by (metis option.distinct(1))
  have b: "fst (handleEpubFile ok_network epub_request empty_world) = sample_response"
    using ok_case k1 by blast
  have c: "cache_match (caches_get (store (snd (handleDynamicRequest ok_network epub_request
      empty_world))) DYNAMIC_CACHE) epub_request = Some sample_response"
    using ok_case k1 k2 by blast
  have h1: "fetch_ok offline_network (url epub_request) = None"
    by (simp add: fetch_ok_def offline_network_def)
  have h2: "caches_match (store epub_cached_world) epub_request \<noteq> None"
    by code_simp
  have h3: "caches_match (store empty_world) epub_request = None"
    by (simp add: empty_world_def)
  have d: "handleEpubFile offline_network epub_request epub_cached_world
     = handleDynamicRequest offline_network epub_request epub_cached_world"
    using document_other_equivalent [of offline_network epub_request epub_cached_world] h2
    by blast
  have e: "status (fst (handleEpubFile offline_network epub_request empty_world)) = 404 \<and>
    status (fst (handleDynamicRequest offline_network epub_request empty_world)) = 200"
    using document_other_equivalent [of offline_network epub_request empty_world] h1 h3
    by blast
  from k1 k2 k3 a b c h1 h2 h3 d e show ?thesis by blast
qed

subsection \<open>Classification of document requests\<close>

text \<open>
  C8, as stated: every intercepted GET request whose URL ends in or contains
  \<^verbatim>\<open>.epub\<close> goes to the document strategy. The listener asks \<open>isStaticAsset\<close>
  first, so a document on the CDN host, or one whose URL ends in \<^verbatim>\<open>.json\<close> after
  a query, goes to the static strategy.
\<close>

theorem epub_routed_static_counterexample:
  "method cdn_epub_request = ''GET'' \<and>
   str_endsWith (url cdn_epub_request) ''.epub'' \<and>
   isEpubFile (url cdn_epub_request) \<and>
   fetch_listener offline_network cdn_epub_request cdn_URL empty_world
     = Some (Static, handleStaticAsset offline_network cdn_epub_request empty_world) \<and>
   isEpubFile (url versioned_epub_request) \<and>
   fetch_listener offline_network versioned_epub_request example_URL empty_world
     = Some (Static, handleStaticAsset offline_network versioned_epub_request empty_world)"
proof -
  have "method cdn_epub_request = ''GET''" by (simp add: cdn_epub_request_def)
  moreover have "str_endsWith (url cdn_epub_request) ''.epub''" by code_simp
  moreover have "isEpubFile (url cdn_epub_request)" by code_simp
  moreover have "fetch_listener offline_network cdn_epub_request cdn_URL empty_world
     = Some (Static, handleStaticAsset offline_network cdn_epub_request empty_world)"
    by code_simp
  moreover have "isEpubFile (url versioned_epub_request)" by code_simp
  moreover have "fetch_listener offline_network versioned_epub_request example_URL empty_world
     = Some (Static, handleStaticAsset offline_network versioned_epub_request empty_world)"
    by code_simp
  ultimately show ?thesis by simp
qed

text \<open>
  C8, amended. An intercepted GET request (not of the extension scheme, not to the
  developer-tools host) whose URL ends in or contains \<^verbatim>\<open>.epub\<close> and is not
  classified static goes to the document strategy, and to no other.
\<close>

theorem epub_routed_document:
  assumes "method req = ''GET''"
    and "protocol u \<noteq> ''chrome-extension:''"
    and "hostname u \<noteq> ''chrome-devtools-frontend.appspot.com''"
    and "str_endsWith (url req) ''.epub'' \<or> str_includes (url req) ''.epub''"
    and "\<not> isStaticAsset (url req)"
  shows "fetch_listener net req u w = Some (Document, handleEpubFile net req w)"
  using assms by (simp add: fetch_listener_def isEpubFile_def)

theorem epub_routed_document_witness:
  "method epub_request = ''GET'' \<and>
   protocol example_URL \<noteq> ''chrome-extension:'' \<and>
   hostname example_URL \<noteq> ''chrome-devtools-frontend.appspot.com'' \<and>
   str_endsWith (url epub_request) ''.epub'' \<and>
   \<not> isStaticAsset (url epub_request) \<and>
   fetch_listener offline_network epub_request example_URL empty_world
     = Some (Document, handleEpubFile offline_network epub_request empty_world)"
proof -
  have h1: "method epub_request = ''GET''" by (simp add: epub_request_def)
  have h2: "protocol example_URL \<noteq> ''chrome-extension:''" by (simp add: example_URL_def)
  have h3: "hostname example_URL \<noteq> ''chrome-devtools-frontend.appspot.com''"
    by (simp add: example_URL_def)
  have h4: "str_endsWith (url epub_request) ''.epub''" by code_simp
  have h5: "\<not> isStaticAsset (url epub_request)" by code_simp
  from h4 have h4': "str_endsWith (url epub_request) ''.epub'' \<or> str_includes (url epub_request) ''.epub''"
    by simp
  from epub_routed_document [OF h1 h2 h3 h4' h5] h1 h2 h3 h4 h5 show ?thesis by simp
qed

subsection \<open>Activation\<close>

lemma fold_caches_delete:
  "fold (\<lambda>cacheName cs'. if f cacheName then cs' else caches_delete cs' cacheName) ns cs =
   filter (\<lambda>p. fst p \<notin> set (filter (\<lambda>n. \<not> f n) ns)) cs"
proof (induction ns arbitrary: cs)
  case Nil
  then show ?case by simp
next
  case (Cons n ns)
  show ?case
  proof (cases "f n")
    case True
    then show ?thesis by (simp add: Cons.IH)
  next
    case False
    then have "fold (\<lambda>cacheName cs'. if f cacheName then cs' else caches_delete cs' cacheName) (n # ns) cs
      = filter (\<lambda>p. fst p \<notin> set (filter (\<lambda>n. \<not> f n) ns)) (filter (\<lambda>p. fst p \<noteq> n) cs)"
      by (simp add: Cons.IH caches_delete_def)
    also have "\<dots> = filter (\<lambda>p. fst p \<notin> set (filter (\<lambda>n. \<not> f n) (n # ns))) cs"
      using False by (auto intro: filter_cong)
    finally show ?thesis .
  qed
qed

lemma activate_store_eq:
  "activate_store (activate del_fails cs) =
   filter (\<lambda>p. fst p = STATIC_CACHE \<or> fst p = DYNAMIC_CACHE \<or> del_fails (fst p)) cs"
proof -
  let ?stale = "filter (\<lambda>cacheName. cacheName \<noteq> STATIC_CACHE \<and> cacheName \<noteq> DYNAMIC_CACHE) (map fst cs)"
  have "activate_store (activate del_fails cs) =
    fold (\<lambda>cacheName cs'. if del_fails cacheName then cs' else caches_delete cs' cacheName) ?stale cs"
    by (simp add: activate_def Let_def caches_keys_def)
  also have "\<dots> = filter (\<lambda>p. fst p \<notin> set (filter (\<lambda>n. \<not> del_fails n) ?stale)) cs"
    by (rule fold_caches_delete)
  also have "\<dots> = filter (\<lambda>p. fst p = STATIC_CACHE \<or> fst p = DYNAMIC_CACHE \<or> del_fails (fst p)) cs"
  proof (rule filter_cong [OF refl])
    fix p assume "p \<in> set cs"
    then have "fst p \<in> set (map fst cs)" by simp
    then show "(fst p \<notin> set (filter (\<lambda>n. \<not> del_fails n) ?stale))
      = (fst p = STATIC_CACHE \<or> fst p = DYNAMIC_CACHE \<or> del_fails (fst p))"
      by auto
  qed
  finally show ?thesis .
qed

lemma activate_settled_eq:
  "activate_settled (activate del_fails cs) =
   (if \<exists>n\<in>set (caches_keys cs). n \<noteq> STATIC_CACHE \<and> n \<noteq> DYNAMIC_CACHE \<and> del_fails n
    then Rejected else Fulfilled ())"
  by (auto simp: activate_def Let_def list_ex_iff)

text \<open>
  C9. Activation keeps exactly the partitions named by the two current constants and
  those stale partitions whose deletion the store rejects. So every stale partition
  whose deletion succeeds is gone, whichever other deletions fail; and when no deletion
  fails only the current partitions remain, the activation promise is fulfilled and the
  clients are claimed.
\<close>

theorem activate_deletes_stale:
  "activate_store (activate del_fails cs) =
     filter (\<lambda>p. fst p = STATIC_CACHE \<or> fst p = DYNAMIC_CACHE \<or> del_fails (fst p)) cs \<and>
   (\<forall>n. n \<noteq> STATIC_CACHE \<and> n \<noteq> DYNAMIC_CACHE \<and> \<not> del_fails n \<longrightarrow>
        n \<notin> set (caches_keys (activate_store (activate del_fails cs)))) \<and>
   ((\<forall>n\<in>set (caches_keys cs). \<not> del_fails n) \<longrightarrow>
        activate_store (activate del_fails cs) =
          filter (\<lambda>p. fst p = STATIC_CACHE \<or> fst p = DYNAMIC_CACHE) cs \<and>
        (\<forall>n\<in>set (caches_keys (activate_store (activate del_fails cs))).
           n = STATIC_CACHE \<or> n = DYNAMIC_CACHE) \<and>
        activate_settled (activate del_fails cs) = Fulfilled () \<and>
        clients_claimed (activate del_fails cs))"
proof (intro conjI allI impI)
  show "activate_store (activate del_fails cs) =
     filter (\<lambda>p. fst p = STATIC_CACHE \<or> fst p = DYNAMIC_CACHE \<or> del_fails (fst p)) cs"
    by (rule activate_store_eq)
next
  fix n assume "n \<noteq> STATIC_CACHE \<and> n \<noteq> DYNAMIC_CACHE \<and> \<not> del_fails n"
  then show "n \<notin> set (caches_keys (activate_store (activate del_fails cs)))"
    by (auto simp: activate_store_eq caches_keys_def)
next
  assume ok: "\<forall>n\<in>set (caches_keys cs). \<not> del_fails n"
  show "activate_store (activate del_fails cs) =
          filter (\<lambda>p. fst p = STATIC_CACHE \<or> fst p = DYNAMIC_CACHE) cs"
    unfolding activate_store_eq
    using ok by (intro filter_cong [OF refl]) (auto simp: caches_keys_def)
  show "\<forall>n\<in>set (caches_keys (activate_store (activate del_fails cs))).
           n = STATIC_CACHE \<or> n = DYNAMIC_CACHE"
    using ok by (auto simp: activate_store_eq caches_keys_def)
  have s: "activate_settled (activate del_fails cs) = Fulfilled ()"
    using ok by (auto simp: activate_settled_eq)
  then show "activate_settled (activate del_fails cs) = Fulfilled ()" .
  from s show "clients_claimed (activate del_fails cs)"
    by (simp add: activate_def Let_def)
qed

theorem activate_deletes_stale_witness:
  "activate_store (activate no_failure old_version_storage)
     = [(STATIC_CACHE, []), (DYNAMIC_CACHE, [])] \<and>
   caches_keys (activate_store (activate leftover_fails old_version_storage))
     = [STATIC_CACHE, DYNAMIC_CACHE, ''leftover'']"
proof -
  have neq: "STATIC_CACHE \<noteq> ''reader-static-v0.9.0''" "STATIC_CACHE \<noteq> ''leftover''"
    "DYNAMIC_CACHE \<noteq> ''reader-static-v0.9.0''" "DYNAMIC_CACHE \<noteq> ''leftover''"
    by (simp_all add: STATIC_CACHE_def DYNAMIC_CACHE_def)
  have "\<forall>n\<in>set (caches_keys old_version_storage). \<not> no_failure n"
    by (simp add: no_failure_def)
  with activate_deletes_stale [of no_failure old_version_storage]
  have "activate_store (activate no_failure old_version_storage)
     = filter (\<lambda>p. fst p = STATIC_CACHE \<or> fst p = DYNAMIC_CACHE) old_version_storage"
    by blast
  then have a: "activate_store (activate no_failure old_version_storage)
     = [(STATIC_CACHE, []), (DYNAMIC_CACHE, [])]"
    using neq by (simp add: old_version_storage_def)
  from activate_deletes_stale [of leftover_fails old_version_storage]
  have "activate_store (activate leftover_fails old_version_storage)
     = filter (\<lambda>p. fst p = STATIC_CACHE \<or> fst p = DYNAMIC_CACHE \<or> leftover_fails (fst p))
         old_version_storage"
    by blast
  then have "caches_keys (activate_store (activate leftover_fails old_version_storage))
     = [STATIC_CACHE, DYNAMIC_CACHE, ''leftover'']"
    using neq by (simp add: old_version_storage_def caches_keys_def leftover_fails_def)
  with a show ?thesis by simp
qed

subsection \<open>Install\<close>

lemma those_None: "None \<in> set xs \<Longrightarrow> those xs = None"
  by (induction xs) (auto split: option.splits)

lemma cache_addAll_fetch_fails:
  assumes "req \<in> set reqs" and "fetch_ok net (url req) = None"
  shows "cache_addAll net faults c reqs = Rejected"
proof -
  from assms have "None \<in> set (map (\<lambda>req. fetch_ok net (url req)) reqs)" by force
  then show ?thesis by (simp add: cache_addAll_def those_None)
qed

lemma cache_addAll_write_fails:
  assumes "req \<in> set reqs" and "write_rejects faults (url req)"
  shows "cache_addAll net faults c reqs = Rejected"
proof -
  from assms have "list_ex (\<lambda>req. write_rejects faults (url req)) reqs"
    by (auto simp: list_ex_iff)
  then show ?thesis by (simp add: cache_addAll_def split: option.splits)
qed

lemma install_settled_Fulfilled:
  "install_settled (install location net faults cs) = Fulfilled ()"
  by (simp add: install_def Let_def split: settled.splits)

lemma install_addAll_Rejected:
  assumes "cache_addAll net faults (caches_get cs STATIC_CACHE)
             (map (asset_request location) STATIC_ASSETS) = Rejected"
  shows "\<not> skipWaiting_called (install location net faults cs)"
    and "install_store (install location net faults cs)
           = (if open_rejects faults STATIC_CACHE then cs else caches_open cs STATIC_CACHE)"
  using assms by (simp_all add: install_def Let_def caches_get_open)

text \<open>
  C2, as stated: when an entry cannot be fetched or stored the install step fails, that
  is, the promise given to \<^verbatim>\<open>event.waitUntil\<close> is rejected. The handler's
  \<^verbatim>\<open>catch\<close> logs the error and returns, so the promise is fulfilled both when
  every fetch is rejected and when every fetch succeeds and the store cannot write the
  manifest.
\<close>

theorem install_failure_counterexample:
  "''./index.html'' \<in> set STATIC_ASSETS \<and>
   offline_network (resolve_url worker_location ''./index.html'') = Rejected \<and>
   install_settled (install worker_location offline_network no_faults []) = Fulfilled () \<and>
   install_settled (install worker_location offline_network no_faults []) \<noteq> Rejected \<and>
   ''./manifest.json'' \<in> set STATIC_ASSETS \<and>
   write_rejects manifest_write_fails (resolve_url worker_location ''./manifest.json'') \<and>
   install_settled (install worker_location ok_network manifest_write_fails []) = Fulfilled () \<and>
   install_settled (install worker_location ok_network manifest_write_fails []) \<noteq> Rejected"
proof -
  have "''./index.html'' \<in> set STATIC_ASSETS" "''./manifest.json'' \<in> set STATIC_ASSETS"
    by (simp_all add: STATIC_ASSETS_def)
  moreover have "offline_network (resolve_url worker_location ''./index.html'') = Rejected"
    by (simp add: offline_network_def)
  moreover have "write_rejects manifest_write_fails (resolve_url worker_location ''./manifest.json'')"
    by code_simp
  moreover have "install_settled (install worker_location offline_network no_faults []) = Fulfilled ()"
    "install_settled (install worker_location ok_network manifest_write_fails []) = Fulfilled ()"
    by (simp_all only: install_settled_Fulfilled)
  ultimately show ?thesis by simp
qed

text \<open>
  C2, amended. When, for some entry of the Static Asset List, the fetch is rejected or
  yields a response that is not ok, or the store cannot write the entry, install adds
  no entry to any cache (the static partition holds the entries it had before; it has
  been created when the store let it be opened) and does not call \<^verbatim>\<open>skipWaiting\<close>.
  The step does not fail: the handler logs the error, and the promise given to
  \<^verbatim>\<open>event.waitUntil\<close> is fulfilled.
\<close>

theorem install_failure_swallowed:
  assumes "k \<in> set STATIC_ASSETS"
    and "fetch_ok net (resolve_url location k) = None \<or>
         write_rejects faults (resolve_url location k)"
  shows "install_settled (install location net faults cs) = Fulfilled () \<and>
         \<not> skipWaiting_called (install location net faults cs) \<and>
         install_store (install location net faults cs)
           = (if open_rejects faults STATIC_CACHE then cs else caches_open cs STATIC_CACHE) \<and>
         caches_get (install_store (install location net faults cs)) STATIC_CACHE
           = caches_get cs STATIC_CACHE"
proof -
  let ?reqs = "map (asset_request location) STATIC_ASSETS"
  have mem: "asset_request location k \<in> set ?reqs" using assms(1) by simp
  have u: "url (asset_request location k) = resolve_url location k"
    by (simp add: asset_request_def)
  have "cache_addAll net faults (caches_get cs STATIC_CACHE) ?reqs = Rejected"
    using assms(2)
  proof
    assume "fetch_ok net (resolve_url location k) = None"
    with mem u show ?thesis by (metis cache_addAll_fetch_fails)
  next
    assume "write_rejects faults (resolve_url location k)"
    with mem u show ?thesis by (metis cache_addAll_write_fails)
  qed
  from install_addAll_Rejected [OF this]
  show ?thesis by (simp add: install_settled_Fulfilled caches_get_open)
qed

theorem install_failure_swallowed_witness:
  "''./manifest.json'' \<in> set STATIC_ASSETS \<and>
   fetch_ok error_network (resolve_url worker_location ''./manifest.json'') = None \<and>
   install_settled (install worker_location error_network no_faults []) = Fulfilled () \<and>
   install_store (install worker_location error_network no_faults []) = [(STATIC_CACHE, [])] \<and>
   \<not> skipWaiting_called (install worker_location error_network no_faults []) \<and>
   write_rejects manifest_write_fails (resolve_url worker_location ''./manifest.json'') \<and>
   install_settled (install worker_location ok_network manifest_write_fails []) = Fulfilled () \<and>
   install_store (install worker_location ok_network manifest_write_fails []) = [(STATIC_CACHE, [])] \<and>
   \<not> skipWaiting_called (install worker_location ok_network manifest_write_fails [])"
proof -
  have h1: "''./manifest.json'' \<in> set STATIC_ASSETS" by (simp add: STATIC_ASSETS_def)
  have h2: "fetch_ok error_network (resolve_url worker_location ''./manifest.json'') = None"
    by (simp add: fetch_ok_def error_network_def ok_def error_response_def)
  have h3: "write_rejects manifest_write_fails (resolve_url worker_location ''./manifest.json'')"
    by code_simp
  have o: "caches_open [] STATIC_CACHE = [(STATIC_CACHE, [])]" by (simp add: caches_open_def)
  have n: "\<not> open_rejects no_faults STATIC_CACHE" "\<not> open_rejects manifest_write_fails STATIC_CACHE"
    by (simp_all add: no_faults_def manifest_write_fails_def)
  from h2 have h2': "fetch_ok error_network (resolve_url worker_location ''./manifest.json'') = None \<or>
      write_rejects no_faults (resolve_url worker_location ''./manifest.json'')" by simp
  from h3 have h3': "fetch_ok ok_network (resolve_url worker_location ''./manifest.json'') = None \<or>
      write_rejects manifest_write_fails (resolve_url worker_location ''./manifest.json'')" by simp
  from install_failure_swallowed [OF h1 h2', of "[]"] install_failure_swallowed [OF h1 h3', of "[]"]
    h1 h2 h3 o n
  show ?thesis by simp
qed

subsection \<open>Eviction sweep\<close>





end
